theory Spec2Isabelle
  imports Main "HOL-Library.AList" "HOL-Library.Sublist"
begin

section \<open>Python values\<close>

text \<open>
  The arguments of the client are dynamically typed. The docstrings of \<^verbatim>\<open>pycarmd/api.py\<close>
  name three kinds of value: \<^verbatim>\<open>None\<close> (the default of every optional argument),
  \<^verbatim>\<open>str\<close> and \<^verbatim>\<open>int\<close> (year and mileage are "(int, str)").
\<close>

datatype pyval = PNone | PStr string | PInt int

text \<open>Truth value testing, as \<^verbatim>\<open>all((key, secret))\<close> applies it: \<^verbatim>\<open>None\<close>, the empty
  string and zero are false.\<close>

fun truthy :: "pyval \<Rightarrow> bool" where
  "truthy PNone = False"
| "truthy (PStr s) = (s \<noteq> [])"
| "truthy (PInt i) = (i \<noteq> 0)"

datatype error = KeyError string | TypeError string | ValueError string

text \<open>
  The builtin \<^verbatim>\<open>str\<close>: a string is returned as it is, an integer is written in decimal
  with a leading minus sign when negative. The interpreter limits the conversion of an
  integer (\<^verbatim>\<open>sys.get_int_max_str_digits()\<close>, 4300 unless configured, 0 for no limit, never
  between 1 and 639): an integer with more decimal digits than the limit raises
  \<^verbatim>\<open>ValueError\<close>.
\<close>

definition digit :: "nat \<Rightarrow> char" where
  "digit d = ''0123456789'' ! d"

function str_nat :: "nat \<Rightarrow> string" where
  "str_nat n = (if n < 10 then [digit n] else str_nat (n div 10) @ [digit (n mod 10)])"
  by pat_completeness auto
termination
  by (relation "measure id") auto

declare str_nat.simps [simp del]

definition str_int :: "nat \<Rightarrow> int \<Rightarrow> error + string" where
  "str_int limit i =
     (let ds = str_nat (nat \<bar>i\<bar>)
      in if 0 < limit \<and> limit < length ds then
           Inl (ValueError (''Exceeds the limit ('' @ str_nat limit @
             '' digits) for integer string conversion; '' @
             ''use sys.set_int_max_str_digits() to increase the limit''))
         else Inr (if i < 0 then CHR ''-'' # ds else ds))"

fun str :: "nat \<Rightarrow> pyval \<Rightarrow> error + string" where
  "str limit PNone = Inr ''None''"
| "str limit (PStr s) = Inr s"
| "str limit (PInt i) = str_int limit i"

text \<open>
  A \<^verbatim>\<open>dict\<close> is an association list with distinct keys, in insertion order.
  \<^verbatim>\<open>d[k] = v\<close> is \<^const>\<open>AList.update\<close>: it overwrites the entry of \<open>k\<close> in place when there
  is one and appends \<open>(k, v)\<close> otherwise. Lookup is \<^const>\<open>map_of\<close>.
\<close>

type_synonym 'v dict = "(string \<times> 'v) list"

text \<open>
  The header mapping of a request is a \<^verbatim>\<open>CaseInsensitiveDict\<close> of the HTTP library: an
  ordered store with one entry for each lower-cased name, holding the name as it was
  last written and the value. \<^verbatim>\<open>h[k] = v\<close> replaces in place the entry whose name
  equals \<open>k\<close> up to case by \<open>(k, v)\<close>, and appends \<open>(k, v)\<close> when there is none;
  \<^verbatim>\<open>h[k]\<close> finds the value of the entry whose name equals \<open>k\<close> up to case.
  A character of a header name is a code point below 256 (HTTP sends header names in
  Latin-1); \<^verbatim>\<open>str.lower\<close> maps the letters A to Z and the capital letters of the
  Latin-1 supplement (192 to 222 except the multiplication sign 215) to the code point
  32 above, and leaves every other character.
\<close>

definition lower_char :: "char \<Rightarrow> char" where
  "lower_char c =
     (case map_of (zip ''ABCDEFGHIJKLMNOPQRSTUVWXYZ'' ''abcdefghijklmnopqrstuvwxyz'') c of
        Some d \<Rightarrow> d
      | None \<Rightarrow>
          if (192::nat) \<le> of_char c \<and> of_char c \<le> (222::nat) \<and> of_char c \<noteq> (215::nat)
          then char_of (of_char c + (32::nat)) else c)"

definition lower :: "string \<Rightarrow> string" where
  "lower s = map lower_char s"

fun CaseInsensitiveDict_setitem :: "string \<Rightarrow> 'v \<Rightarrow> 'v dict \<Rightarrow> 'v dict" where
  "CaseInsensitiveDict_setitem k v [] = [(k, v)]"
| "CaseInsensitiveDict_setitem k v (e # es) =
     (if lower (fst e) = lower k then (k, v) # es
      else e # CaseInsensitiveDict_setitem k v es)"

definition CaseInsensitiveDict_getitem :: "'v dict \<Rightarrow> string \<Rightarrow> 'v option" where
  "CaseInsensitiveDict_getitem h k = map_of (map (\<lambda>e. (lower (fst e), snd e)) h) (lower k)"

section \<open>The module: constants read from the environment at import\<close>

text \<open>
  \<^verbatim>\<open>os.environ.get(name, None)\<close>: the value of the variable as a string, or \<^verbatim>\<open>None\<close>.
\<close>

definition environ_get :: "string dict \<Rightarrow> string \<Rightarrow> pyval" where
  "environ_get env name = (case map_of env name of None \<Rightarrow> PNone | Some v \<Rightarrow> PStr v)"

record api_module =
  CMD_BASE_URL :: string
  CMD_DEFAULT_KEY :: pyval
  CMD_DEFAULT_SECRET :: pyval

text \<open>Executing the module body (lines 8 to 10) in an environment gives its globals.\<close>

definition import_api :: "string dict \<Rightarrow> api_module" where
  "import_api env =
     \<lparr>CMD_BASE_URL = ''http://api2.carmd.com/v2.0/'',
      CMD_DEFAULT_KEY = environ_get env ''CARMD_KEY'',
      CMD_DEFAULT_SECRET = environ_get env ''CARMD_SECRET''\<rparr>"

section \<open>CarmdAuth\<close>

record CarmdAuth =
  key :: pyval
  secret :: pyval

definition CarmdAuth_init :: "pyval \<Rightarrow> pyval \<Rightarrow> CarmdAuth" where
  "CarmdAuth_init k s = \<lparr>key = k, secret = s\<rparr>"

text \<open>
  The request that the HTTP library hands to the auth callable: its verb, URL, header
  mapping (a \<^verbatim>\<open>CaseInsensitiveDict\<close>) and body. \<^verbatim>\<open>__call__\<close> assigns two items of
  \<^verbatim>\<open>r.headers\<close> and returns \<^verbatim>\<open>r\<close>.
\<close>

record request =
  verb :: string
  url :: string
  headers :: "pyval dict"
  body :: string

definition CarmdAuth_call :: "CarmdAuth \<Rightarrow> request \<Rightarrow> request" where
  "CarmdAuth_call self r =
     (let r1 = r\<lparr>headers :=
                 CaseInsensitiveDict_setitem ''authorization'' (key self) (headers r)\<rparr>;
          r2 = r1\<lparr>headers :=
                 CaseInsensitiveDict_setitem ''partner-token'' (secret self) (headers r1)\<rparr>
      in r2)"

section \<open>The process and the HTTP layer\<close>

text \<open>
  A keyword argument of \<^verbatim>\<open>requests.get\<close> is a plain value or, under \<^verbatim>\<open>auth\<close>, an auth
  object. A call of \<^verbatim>\<open>requests.get(url, params=params, **kwargs)\<close> is recorded with
  its arguments.
\<close>

datatype kwval = Val pyval | AuthObj CarmdAuth

record http_call =
  call_verb :: string
  call_url :: string
  call_params :: "pyval dict option"
  call_kwargs :: "kwval dict"

text \<open>
  The state of the running process: \<^verbatim>\<open>os.environ\<close>, the globals of the imported module,
  the interpreter's limit on integer string conversion, and the calls handed to the
  HTTP layer so far, oldest first.
\<close>

record process =
  environ :: "string dict"
  globals :: api_module
  int_max_str_digits :: nat
  sent :: "http_call list"

text \<open>A process that has just imported the module, on an interpreter with the default
  limit on integer string conversion.\<close>

definition start :: "string dict \<Rightarrow> process" where
  "start env =
     \<lparr>environ = env, globals = import_api env, int_max_str_digits = 4300, sent = []\<rparr>"

text \<open>\<^verbatim>\<open>os.environ[name] = v\<close> and \<^verbatim>\<open>del os.environ[name]\<close>, run after the import.\<close>

definition putenv :: "string \<Rightarrow> string \<Rightarrow> process \<Rightarrow> process" where
  "putenv name v p = p\<lparr>environ := AList.update name v (environ p)\<rparr>"

definition unsetenv :: "string \<Rightarrow> process \<Rightarrow> process" where
  "unsetenv name p = p\<lparr>environ := AList.delete name (environ p)\<rparr>"

text \<open>
  \<^verbatim>\<open>requests.get(url, params=None, **kwargs)\<close> belongs to the HTTP library, not to this
  repository. The call \<^verbatim>\<open>requests.get(url, params=params, **kwargs)\<close> of line 65 passes
  \<^verbatim>\<open>url\<close> by position and \<^verbatim>\<open>params\<close> by keyword: when the dictionary \<^verbatim>\<open>kwargs\<close> has an
  entry named \<^verbatim>\<open>params\<close> or \<^verbatim>\<open>url\<close> as well, the interpreter raises \<^verbatim>\<open>TypeError\<close> and the
  library is not entered. Otherwise the library is a parameter \<open>http\<close>: given the earlier
  calls and this call, the outcome of the library (a response, or whatever the library
  does instead), which the client returns as it is. Issuing the call appends it to
  \<^const>\<open>sent\<close>.
\<close>

definition requests_get ::
  "(http_call list \<Rightarrow> http_call \<Rightarrow> 'r) \<Rightarrow> string \<Rightarrow> pyval dict option \<Rightarrow> kwval dict \<Rightarrow>
     process \<Rightarrow> (error + 'r) \<times> process" where
  "requests_get http u ps kw p =
     (if ''params'' \<in> set (map fst kw) then
        (Inl (TypeError (''requests.api.get() got multiple values for keyword argument 'params'' @
           [CHR 0x27])), p)
      else if ''url'' \<in> set (map fst kw) then
        (Inl (TypeError (''get() got multiple values for argument 'url'' @ [CHR 0x27])), p)
      else
        (let c = \<lparr>call_verb = ''GET'', call_url = u, call_params = ps, call_kwargs = kw\<rparr>
         in (Inr (http (sent p) c), p\<lparr>sent := sent p @ [c]\<rparr>)))"

section \<open>CarmdApi\<close>

text \<open>The attributes \<^verbatim>\<open>_key\<close>, \<^verbatim>\<open>_secret\<close> and \<^verbatim>\<open>_auth\<close> of a client.\<close>

record CarmdApi =
  self_key :: pyval
  self_secret :: pyval
  self_auth :: CarmdAuth

definition init_message :: string where
  "init_message =
     ''This object must be initialized with a key and secret value. '' @
     ''Alternatively, 'CARMD_KEY' and 'CARMD_SECRET' values can '' @
     ''be stored/retrieved from the operating system environment.''"

text \<open>
  \<^verbatim>\<open>__init__(self, key=None, secret=None)\<close>. An omitted argument is \<^const>\<open>PNone\<close>. The
  result is the error raised or the client, with the process after the call.
\<close>

definition CarmdApi_init :: "pyval \<Rightarrow> pyval \<Rightarrow> process \<Rightarrow> (error + CarmdApi) \<times> process" where
  "CarmdApi_init key0 secret0 p =
     (let key1 = (if key0 = PNone then CMD_DEFAULT_KEY (globals p) else key0);
          secret1 = (if secret0 = PNone then CMD_DEFAULT_SECRET (globals p) else secret0)
      in if \<not> (truthy key1 \<and> truthy secret1) then (Inl (KeyError init_message), p)
         else (Inr \<lparr>self_key = key1, self_secret = secret1,
                    self_auth = CarmdAuth_init key1 secret1\<rparr>, p))"

text \<open>
  \<^verbatim>\<open>get(self, service, params=None, **kwargs)\<close>. \<open>kwargs\<close> is the dictionary that the
  body sees: the keywords of the caller other than \<^verbatim>\<open>service\<close> and \<^verbatim>\<open>params\<close>, which the
  interpreter binds to the parameters of those names. Every method returns its outcome,
  the client after the call and the process after the call.
\<close>

definition get ::
  "(http_call list \<Rightarrow> http_call \<Rightarrow> 'r) \<Rightarrow> CarmdApi \<Rightarrow> string \<Rightarrow> pyval dict option \<Rightarrow> kwval dict \<Rightarrow>
     process \<Rightarrow> (error + 'r) \<times> CarmdApi \<times> process" where
  "get http self service params kwargs p =
     (let u = CMD_BASE_URL (globals p) @ service;
          kwargs1 = AList.update ''auth'' (AuthObj (self_auth self)) kwargs;
          (r, p1) = requests_get http u params kwargs1 p
      in (r, self, p1))"

definition get_decode ::
  "(http_call list \<Rightarrow> http_call \<Rightarrow> 'r) \<Rightarrow> CarmdApi \<Rightarrow> pyval \<Rightarrow> process \<Rightarrow>
     (error + 'r) \<times> CarmdApi \<times> process" where
  "get_decode http self vin p = get http self ''decode'' (Some [(''vin'', vin)]) [] p"

definition get_safety_recall ::
  "(http_call list \<Rightarrow> http_call \<Rightarrow> 'r) \<Rightarrow> CarmdApi \<Rightarrow> pyval \<Rightarrow> process \<Rightarrow>
     (error + 'r) \<times> CarmdApi \<times> process" where
  "get_safety_recall http self vehicle_id p =
     get http self ''articles/safetyrecall'' (Some [(''vehicleID'', vehicle_id)]) [] p"

definition get_predicted_repair ::
  "(http_call list \<Rightarrow> http_call \<Rightarrow> 'r) \<Rightarrow> CarmdApi \<Rightarrow> pyval \<Rightarrow> pyval \<Rightarrow> pyval \<Rightarrow> process \<Rightarrow>
     (error + 'r) \<times> CarmdApi \<times> process" where
  "get_predicted_repair http self vehicle_id tag fleet_id p =
     (if vehicle_id \<noteq> PNone then
        get http self ''report/predicted'' (Some [(''vehicleID'', vehicle_id)]) [] p
      else if tag \<noteq> PNone then
        get http self ''report/predicted'' (Some [(''tag'', tag)]) [] p
      else if fleet_id \<noteq> PNone then
        get http self ''report/predicted'' (Some [(''fleetID'', fleet_id)]) [] p
      else
        (Inl (TypeError (''Required paramater missing: '' @ ''vehicle_id, tag, or fleet_id'')),
         self, p))"

definition get_warranty ::
  "(http_call list \<Rightarrow> http_call \<Rightarrow> 'r) \<Rightarrow> CarmdApi \<Rightarrow> pyval \<Rightarrow> process \<Rightarrow>
     (error + 'r) \<times> CarmdApi \<times> process" where
  "get_warranty http self vehicle_id p =
     get http self ''articles/warranty'' (Some [(''vehicleID'', vehicle_id)]) [] p"

definition get_maintenance ::
  "(http_call list \<Rightarrow> http_call \<Rightarrow> 'r) \<Rightarrow> CarmdApi \<Rightarrow> pyval \<Rightarrow> pyval \<Rightarrow> process \<Rightarrow>
     (error + 'r) \<times> CarmdApi \<times> process" where
  "get_maintenance http self vin mileage p =
     (case str (int_max_str_digits p) mileage of
        Inl e \<Rightarrow> (Inl e, self, p)
      | Inr s \<Rightarrow> get http self ''maint/next'' (Some [(''vin'', vin), (''mileage'', PStr s)]) [] p)"

definition get_years ::
  "(http_call list \<Rightarrow> http_call \<Rightarrow> 'r) \<Rightarrow> CarmdApi \<Rightarrow> pyval \<Rightarrow> process \<Rightarrow>
     (error + 'r) \<times> CarmdApi \<times> process" where
  "get_years http self make' p = get http self ''decode'' (Some [(''make'', make')]) [] p"

definition get_makes ::
  "(http_call list \<Rightarrow> http_call \<Rightarrow> 'r) \<Rightarrow> CarmdApi \<Rightarrow> process \<Rightarrow>
     (error + 'r) \<times> CarmdApi \<times> process" where
  "get_makes http self p = get http self ''decode'' None [] p"

definition get_models ::
  "(http_call list \<Rightarrow> http_call \<Rightarrow> 'r) \<Rightarrow> CarmdApi \<Rightarrow> pyval \<Rightarrow> pyval \<Rightarrow> process \<Rightarrow>
     (error + 'r) \<times> CarmdApi \<times> process" where
  "get_models http self year make' p =
     (case str (int_max_str_digits p) year of
        Inl e \<Rightarrow> (Inl e, self, p)
      | Inr s \<Rightarrow> get http self ''decode'' (Some [(''year'', PStr s), (''make'', make')]) [] p)"

section \<open>The HTTP library applying the auth object\<close>

text \<open>
  \<^verbatim>\<open>CarmdAuth\<close> extends \<^verbatim>\<open>requests.auth.AuthBase\<close>: the HTTP library calls the object
  given as \<^verbatim>\<open>auth\<close> on the request it has prepared from a call, and sends what the object
  returns. How the library prepares a request is not modelled: \<open>r\<close> is any request.
\<close>

definition apply_auth :: "http_call \<Rightarrow> request \<Rightarrow> request" where
  "apply_auth c r =
     (case map_of (call_kwargs c) ''auth'' of
        Some (AuthObj a) \<Rightarrow> CarmdAuth_call a r
      | _ \<Rightarrow> r)"

section \<open>The lifetime of a client\<close>

text \<open>
  The public operations of a client, and a caller that invokes a sequence of them on
  one client. An error raised by one invocation is the caller's to handle; the next
  invocation starts from the client and process that the failed one left.
\<close>

datatype operation =
    Get string "pyval dict option" "kwval dict"
  | Get_decode pyval
  | Get_safety_recall pyval
  | Get_predicted_repair pyval pyval pyval
  | Get_warranty pyval
  | Get_maintenance pyval pyval
  | Get_years pyval
  | Get_makes
  | Get_models pyval pyval

fun invoke ::
  "(http_call list \<Rightarrow> http_call \<Rightarrow> 'r) \<Rightarrow> CarmdApi \<Rightarrow> operation \<Rightarrow> process \<Rightarrow>
     (error + 'r) \<times> CarmdApi \<times> process" where
  "invoke http self (Get service params kwargs) p = get http self service params kwargs p"
| "invoke http self (Get_decode vin) p = get_decode http self vin p"
| "invoke http self (Get_safety_recall vehicle_id) p = get_safety_recall http self vehicle_id p"
| "invoke http self (Get_predicted_repair vehicle_id tag fleet_id) p =
     get_predicted_repair http self vehicle_id tag fleet_id p"
| "invoke http self (Get_warranty vehicle_id) p = get_warranty http self vehicle_id p"
| "invoke http self (Get_maintenance vin mileage) p = get_maintenance http self vin mileage p"
| "invoke http self (Get_years make') p = get_years http self make' p"
| "invoke http self Get_makes p = get_makes http self p"
| "invoke http self (Get_models year make') p = get_models http self year make' p"

fun run ::
  "(http_call list \<Rightarrow> http_call \<Rightarrow> 'r) \<Rightarrow> CarmdApi \<Rightarrow> operation list \<Rightarrow> process \<Rightarrow>
     CarmdApi \<times> process" where
  "run http self [] p = (self, p)"
| "run http self (x # xs) p =
     (case invoke http self x p of (outcome, self1, p1) \<Rightarrow> run http self1 xs p1)"

section \<open>Properties\<close>

subsection \<open>Unfolded forms of the operations\<close>

lemma get_eq:
  "get http self service params kwargs p =
     (if ''params'' \<in> set (map fst kwargs) then
        (Inl (TypeError (''requests.api.get() got multiple values for keyword argument 'params'' @
           [CHR 0x27])), self, p)
      else if ''url'' \<in> set (map fst kwargs) then
        (Inl (TypeError (''get() got multiple values for argument 'url'' @ [CHR 0x27])), self, p)
      else
        (let c = \<lparr>call_verb = ''GET'', call_url = CMD_BASE_URL (globals p) @ service,
                   call_params = params,
                   call_kwargs = AList.update ''auth'' (AuthObj (self_auth self)) kwargs\<rparr>
         in (Inr (http (sent p) c), self, p\<lparr>sent := sent p @ [c]\<rparr>)))"
proof -
  have keys: "set (map fst (AList.update ''auth'' v kwargs)) = insert ''auth'' (set (map fst kwargs))"
    for v :: kwval
    by (induction kwargs) auto
  show ?thesis
    by (simp add: get_def requests_get_def Let_def keys del: set_map)
qed

lemma get_no_kwargs:
  "get http self service params [] p =
     (Inr (http (sent p) \<lparr>call_verb = ''GET'', call_url = CMD_BASE_URL (globals p) @ service,
                   call_params = params,
                   call_kwargs = [(''auth'', AuthObj (self_auth self))]\<rparr>), self,
      p\<lparr>sent := sent p @ [\<lparr>call_verb = ''GET'', call_url = CMD_BASE_URL (globals p) @ service,
                   call_params = params,
                   call_kwargs = [(''auth'', AuthObj (self_auth self))]\<rparr>]\<rparr>)"
  by (simp add: get_eq Let_def)

lemma CarmdApi_init_eq:
  "CarmdApi_init key0 secret0 p =
     (let key1 = (if key0 = PNone then CMD_DEFAULT_KEY (globals p) else key0);
          secret1 = (if secret0 = PNone then CMD_DEFAULT_SECRET (globals p) else secret0)
      in (if truthy key1 \<and> truthy secret1
          then Inr \<lparr>self_key = key1, self_secret = secret1,
                    self_auth = \<lparr>key = key1, secret = secret1\<rparr>\<rparr>
          else Inl (KeyError init_message), p))"
  by (simp add: CarmdApi_init_def CarmdAuth_init_def Let_def)

subsection \<open>Predicted repair\<close>

text \<open>
  Claim C1. The predicted-repair operation passes to \<^const>\<open>get\<close> a query with exactly one
  entry, chosen in the order vehicle id, tag, fleet id: \<^verbatim>\<open>{'vehicleID': vehicle_id}\<close> when
  \<open>vehicle_id\<close> is supplied (is not \<^verbatim>\<open>None\<close>), else \<^verbatim>\<open>{'tag': tag}\<close> when \<open>tag\<close> is
  supplied, else \<^verbatim>\<open>{'fleetID': fleet_id}\<close> when \<open>fleet_id\<close> is supplied.
\<close>

theorem get_predicted_repair_query:
  "(vehicle_id \<noteq> PNone \<longrightarrow>
      get_predicted_repair http self vehicle_id tag fleet_id p =
        get http self ''report/predicted'' (Some [(''vehicleID'', vehicle_id)]) [] p) \<and>
   (vehicle_id = PNone \<and> tag \<noteq> PNone \<longrightarrow>
      get_predicted_repair http self vehicle_id tag fleet_id p =
        get http self ''report/predicted'' (Some [(''tag'', tag)]) [] p) \<and>
   (vehicle_id = PNone \<and> tag = PNone \<and> fleet_id \<noteq> PNone \<longrightarrow>
      get_predicted_repair http self vehicle_id tag fleet_id p =
        get http self ''report/predicted'' (Some [(''fleetID'', fleet_id)]) [] p)"
  by (simp add: get_predicted_repair_def)

theorem get_predicted_repair_query_witness:
  "get_predicted_repair (\<lambda>h c. c) \<lparr>self_key = PStr ''k'', self_secret = PStr ''s'',
       self_auth = CarmdAuth_init (PStr ''k'') (PStr ''s'')\<rparr> (PInt 0) (PStr ''t'') (PStr ''f'') (start [])
     = get (\<lambda>h c. c) \<lparr>self_key = PStr ''k'', self_secret = PStr ''s'',
       self_auth = CarmdAuth_init (PStr ''k'') (PStr ''s'')\<rparr> ''report/predicted''
         (Some [(''vehicleID'', PInt 0)]) [] (start []) \<and>
   get_predicted_repair (\<lambda>h c. c) \<lparr>self_key = PStr ''k'', self_secret = PStr ''s'',
       self_auth = CarmdAuth_init (PStr ''k'') (PStr ''s'')\<rparr> PNone (PStr ''t'') (PStr ''f'') (start [])
     = get (\<lambda>h c. c) \<lparr>self_key = PStr ''k'', self_secret = PStr ''s'',
       self_auth = CarmdAuth_init (PStr ''k'') (PStr ''s'')\<rparr> ''report/predicted''
         (Some [(''tag'', PStr ''t'')]) [] (start []) \<and>
   get_predicted_repair (\<lambda>h c. c) \<lparr>self_key = PStr ''k'', self_secret = PStr ''s'',
       self_auth = CarmdAuth_init (PStr ''k'') (PStr ''s'')\<rparr> PNone PNone (PStr ''f'') (start [])
     = get (\<lambda>h c. c) \<lparr>self_key = PStr ''k'', self_secret = PStr ''s'',
       self_auth = CarmdAuth_init (PStr ''k'') (PStr ''s'')\<rparr> ''report/predicted''
         (Some [(''fleetID'', PStr ''f'')]) [] (start [])"
  using get_predicted_repair_query [of "PInt 0" "\<lambda>h c. c" _ "PStr ''t''" "PStr ''f''" "start []"]
        get_predicted_repair_query [of PNone "\<lambda>h c. c" _ "PStr ''t''" "PStr ''f''" "start []"]
        get_predicted_repair_query [of PNone "\<lambda>h c. c" _ PNone "PStr ''f''" "start []"]
  by simp

text \<open>
  Claim C2. With \<open>vehicle_id\<close>, \<open>tag\<close> and \<open>fleet_id\<close> all unset the operation raises
  \<^verbatim>\<open>TypeError\<close> and leaves the process as it was: \<^const>\<open>get\<close> is not invoked and no call
  is added to \<^const>\<open>sent\<close>.
\<close>

theorem get_predicted_repair_none:
  "get_predicted_repair http self PNone PNone PNone p =
     (Inl (TypeError ''Required paramater missing: vehicle_id, tag, or fleet_id''), self, p)"
  by (simp add: get_predicted_repair_def)

subsection \<open>Construction\<close>

text \<open>
  Claim C3, as stated, says that construction succeeds for every pair of strings. The
  guard \<^verbatim>\<open>not all((key, secret))\<close> tests truth values, and the empty string is false:
  with an empty key construction raises \<^verbatim>\<open>KeyError\<close>, whatever the environment holds.
\<close>

theorem init_empty_key_counterexample:
  "fst (CarmdApi_init (PStr '''') (PStr ''secret'')
          (start [(''CARMD_KEY'', ''k''), (''CARMD_SECRET'', ''s'')])) =
     Inl (KeyError init_message)"
  by (simp add: CarmdApi_init_eq)

text \<open>
  Claim C3, amended. For every pair of non-empty strings, construction with both
  supplied succeeds in every process state (whatever \<^verbatim>\<open>CARMD_KEY\<close> and \<^verbatim>\<open>CARMD_SECRET\<close>
  are or were), stores the two strings, and leaves the process as it was.
\<close>

theorem init_with_key_and_secret:
  "k \<noteq> [] \<Longrightarrow> s \<noteq> [] \<Longrightarrow>
     CarmdApi_init (PStr k) (PStr s) p =
       (Inr \<lparr>self_key = PStr k, self_secret = PStr s,
              self_auth = \<lparr>key = PStr k, secret = PStr s\<rparr>\<rparr>, p)"
  by (simp add: CarmdApi_init_eq Let_def)

theorem init_with_key_and_secret_witness:
  "CarmdApi_init (PStr ''Basic abc='') (PStr ''XXXX-XXXX'') (start []) =
       (Inr \<lparr>self_key = PStr ''Basic abc='', self_secret = PStr ''XXXX-XXXX'',
              self_auth = \<lparr>key = PStr ''Basic abc='', secret = PStr ''XXXX-XXXX''\<rparr>\<rparr>, start [])"
  using init_with_key_and_secret [of "''Basic abc=''" "''XXXX-XXXX''" "start []"] by simp

text \<open>
  Claim C4, as stated, says that construction fails only when the key or the secret
  is still unset after the fallback. Here the key is supplied as the empty string and
  the secret comes from the environment, so neither is \<^verbatim>\<open>None\<close> after the fallback, and
  construction fails.
\<close>

theorem init_unset_counterexample:
  "fst (CarmdApi_init (PStr '''') PNone (start [(''CARMD_SECRET'', ''s'')])) =
     Inl (KeyError init_message) \<and>
   PStr '''' \<noteq> PNone \<and>
   CMD_DEFAULT_SECRET (globals (start [(''CARMD_SECRET'', ''s'')])) = PStr ''s''"
  by (simp add: CarmdApi_init_eq start_def import_api_def environ_get_def)

text \<open>
  Claim C4, amended. Construction fails if and only if, after the fallback to the
  module defaults for an omitted argument, the key or the secret is false as a truth
  value (\<^verbatim>\<open>None\<close>, the empty string or zero). The error is a \<^verbatim>\<open>KeyError\<close> whose message
  names \<^verbatim>\<open>CARMD_KEY\<close> and \<^verbatim>\<open>CARMD_SECRET\<close>. Construction, failed or not, leaves the
  process as it was: it makes no network call.
\<close>

theorem init_fails_iff:
  "((\<exists>e. fst (CarmdApi_init key0 secret0 p) = Inl e) \<longleftrightarrow>
      \<not> (truthy (if key0 = PNone then CMD_DEFAULT_KEY (globals p) else key0) \<and>
         truthy (if secret0 = PNone then CMD_DEFAULT_SECRET (globals p) else secret0))) \<and>
   (\<forall>e. fst (CarmdApi_init key0 secret0 p) = Inl e \<longrightarrow> e = KeyError init_message) \<and>
   sublist ''CARMD_KEY'' init_message \<and> sublist ''CARMD_SECRET'' init_message \<and>
   snd (CarmdApi_init key0 secret0 p) = p"
proof -
  have "sublist ''CARMD_KEY'' init_message" by code_simp
  moreover have "sublist ''CARMD_SECRET'' init_message" by code_simp
  ultimately show ?thesis by (simp add: CarmdApi_init_eq Let_def)
qed

theorem init_fails_iff_witness:
  "(\<exists>e. fst (CarmdApi_init PNone (PStr ''s'') (start [(''CARMD_KEY'', '''')])) = Inl e) \<and>
   fst (CarmdApi_init PNone (PStr ''s'') (start [(''CARMD_KEY'', '''')])) =
     Inl (KeyError init_message) \<and>
   snd (CarmdApi_init PNone (PStr ''s'') (start [(''CARMD_KEY'', '''')])) =
     start [(''CARMD_KEY'', '''')] \<and>
   \<not> (\<exists>e. fst (CarmdApi_init PNone (PStr ''s'') (start [(''CARMD_KEY'', ''k'')])) = Inl e)"
proof -
  have a: "CMD_DEFAULT_KEY (globals (start [(''CARMD_KEY'', '''')])) = PStr ''''"
    by (simp add: start_def import_api_def environ_get_def)
  have b: "CMD_DEFAULT_KEY (globals (start [(''CARMD_KEY'', ''k'')])) = PStr ''k''"
    by (simp add: start_def import_api_def environ_get_def)
  from a init_fails_iff [of PNone "PStr ''s''" "start [(''CARMD_KEY'', '''')]"]
  have "(\<exists>e. fst (CarmdApi_init PNone (PStr ''s'') (start [(''CARMD_KEY'', '''')])) = Inl e) \<and>
    (\<forall>e. fst (CarmdApi_init PNone (PStr ''s'') (start [(''CARMD_KEY'', '''')])) = Inl e
        \<longrightarrow> e = KeyError init_message) \<and>
    snd (CarmdApi_init PNone (PStr ''s'') (start [(''CARMD_KEY'', '''')])) =
      start [(''CARMD_KEY'', '''')]"
    by simp
  moreover from b init_fails_iff [of PNone "PStr ''s''" "start [(''CARMD_KEY'', ''k'')]"]
  have "\<not> (\<exists>e. fst (CarmdApi_init PNone (PStr ''s'') (start [(''CARMD_KEY'', ''k'')])) = Inl e)"
    by simp
  ultimately show ?thesis by blast
qed

subsection \<open>Item assignment on dictionaries\<close>


lemma lower_authorization: "lower ''authorization'' = ''authorization''"
  by (simp add: lower_def lower_char_def)

lemma lower_partner_token: "lower ''partner-token'' = ''partner-token''"
  by (simp add: lower_def lower_char_def)

lemma setitem_map_of_same: "map_of (CaseInsensitiveDict_setitem k v h) k = Some v"
  by (induction h) auto

lemma setitem_map_of_other:
  "lower k' \<noteq> lower k \<Longrightarrow> map_of (CaseInsensitiveDict_setitem k' v h) k = map_of h k"
  by (induction h) auto

lemma setitem_getitem:
  "CaseInsensitiveDict_getitem (CaseInsensitiveDict_setitem k v h) k' =
     (if lower k' = lower k then Some v else CaseInsensitiveDict_getitem h k')"
  by (induction h) (auto simp: CaseInsensitiveDict_getitem_def)

lemma setitem_keeps_entries:
  "\<not> P (lower k) \<Longrightarrow>
     filter (\<lambda>e. P (lower (fst e))) (CaseInsensitiveDict_setitem k v h) =
     filter (\<lambda>e. P (lower (fst e))) h"
  by (induction h) auto

lemma setitem_names:
  "set (map (\<lambda>e. lower (fst e)) (CaseInsensitiveDict_setitem k v h)) =
     insert (lower k) (set (map (\<lambda>e. lower (fst e)) h))"
  by (induction h) auto

lemma setitem_distinct:
  "distinct (map (\<lambda>e. lower (fst e)) h) \<Longrightarrow>
     distinct (map (\<lambda>e. lower (fst e)) (CaseInsensitiveDict_setitem k v h))"
proof (induction h)
  case Nil
  then show ?case by simp
next
  case (Cons e es)
  show ?case
  proof (cases "lower (fst e) = lower k")
    case True
    with Cons.prems show ?thesis by simp
  next
    case False
    with Cons show ?thesis
      using setitem_names [of k v es] by (simp del: set_map)
  qed
qed

lemma setitem_single_entry:
  "distinct (map (\<lambda>e. lower (fst e)) h) \<Longrightarrow>
     filter (\<lambda>e. lower (fst e) = lower k) (CaseInsensitiveDict_setitem k v h) = [(k, v)]"
proof (induction h)
  case Nil
  then show ?case by simp
next
  case (Cons e es)
  show ?case
  proof (cases "lower (fst e) = lower k")
    case True
    with Cons.prems have "lower k \<notin> (\<lambda>e. lower (fst e)) ` set es"
      by simp
    then have "\<forall>x\<in>set es. lower (fst x) \<noteq> lower k"
      by (metis imageI)
    then have "filter (\<lambda>e. lower (fst e) = lower k) es = []"
      by (simp add: filter_empty_conv)
    with True show ?thesis by simp
  next
    case False
    with Cons show ?thesis by simp
  qed
qed

lemma setitem_find_same:
  "find (\<lambda>e. lower (fst e) = lower k) (CaseInsensitiveDict_setitem k v h) = Some (k, v)"
  by (induction h) auto

lemma setitem_find_other:
  "lower k' \<noteq> lower k \<Longrightarrow>
     find (\<lambda>e. lower (fst e) = lower k) (CaseInsensitiveDict_setitem k' v h) =
     find (\<lambda>e. lower (fst e) = lower k) h"
  by (induction h) auto

lemma setitem_present:
  "find (\<lambda>e. lower (fst e) = lower k) h = Some (k, v) \<Longrightarrow> CaseInsensitiveDict_setitem k v h = h"
  by (induction h) (auto split: if_splits)

subsection \<open>The auth object\<close>

lemma CarmdAuth_call_eq:
  "CarmdAuth_call a r =
     r\<lparr>headers := CaseInsensitiveDict_setitem ''partner-token'' (secret a)
                    (CaseInsensitiveDict_setitem ''authorization'' (key a) (headers r))\<rparr>"
  by (simp add: CarmdAuth_call_def Let_def)

text \<open>
  Claim C5. Applied to a request, the auth object sets two header fields,
  \<^verbatim>\<open>authorization\<close> to its key and \<^verbatim>\<open>partner-token\<close> to its secret, both as they are:
  looking either name up, in any case, gives that value. The lookup of every other
  header name is as before, the entries of the other names are the same in the same
  order, and the verb, the URL and the body of the request are unchanged. In a header
  mapping with one entry for each name up to case, the result again has one entry for
  each name, and exactly one entry under each of the two names, written in lower case.
\<close>

theorem CarmdAuth_call_sets_two_headers:
  "CaseInsensitiveDict_getitem (headers (CarmdAuth_call a r)) k =
     (if lower k = ''authorization'' then Some (key a)
      else if lower k = ''partner-token'' then Some (secret a)
      else CaseInsensitiveDict_getitem (headers r) k) \<and>
   map_of (headers (CarmdAuth_call a r)) ''authorization'' = Some (key a) \<and>
   map_of (headers (CarmdAuth_call a r)) ''partner-token'' = Some (secret a) \<and>
   filter (\<lambda>e. lower (fst e) \<noteq> ''authorization'' \<and> lower (fst e) \<noteq> ''partner-token'')
       (headers (CarmdAuth_call a r)) =
     filter (\<lambda>e. lower (fst e) \<noteq> ''authorization'' \<and> lower (fst e) \<noteq> ''partner-token'')
       (headers r) \<and>
   (distinct (map (\<lambda>e. lower (fst e)) (headers r)) \<longrightarrow>
      distinct (map (\<lambda>e. lower (fst e)) (headers (CarmdAuth_call a r))) \<and>
      filter (\<lambda>e. lower (fst e) = ''authorization'') (headers (CarmdAuth_call a r)) =
        [(''authorization'', key a)] \<and>
      filter (\<lambda>e. lower (fst e) = ''partner-token'') (headers (CarmdAuth_call a r)) =
        [(''partner-token'', secret a)]) \<and>
   verb (CarmdAuth_call a r) = verb r \<and>
   url (CarmdAuth_call a r) = url r \<and>
   body (CarmdAuth_call a r) = body r"
proof -
  let ?au = "''authorization''" and ?pt = "''partner-token''"
  let ?h1 = "CaseInsensitiveDict_setitem ?au (key a) (headers r)"
  let ?h2 = "CaseInsensitiveDict_setitem ?pt (secret a) ?h1"
  let ?other = "\<lambda>n. n \<noteq> ?au \<and> n \<noteq> ?pt"
  have ne: "lower ?pt \<noteq> lower ?au"
    by (simp add: lower_authorization lower_partner_token)
  have lookup: "CaseInsensitiveDict_getitem ?h2 k =
     (if lower k = ?au then Some (key a)
      else if lower k = ?pt then Some (secret a)
      else CaseInsensitiveDict_getitem (headers r) k)"
    by (auto simp: setitem_getitem lower_authorization lower_partner_token)
  have au: "map_of ?h2 ?au = Some (key a)"
    using ne by (simp add: setitem_map_of_other setitem_map_of_same)
  have pt: "map_of ?h2 ?pt = Some (secret a)"
    by (rule setitem_map_of_same)
  have "filter (\<lambda>e. ?other (lower (fst e))) ?h2 = filter (\<lambda>e. ?other (lower (fst e))) ?h1"
    by (rule setitem_keeps_entries) (simp add: lower_partner_token)
  also have "\<dots> = filter (\<lambda>e. ?other (lower (fst e))) (headers r)"
    by (rule setitem_keeps_entries) (simp add: lower_authorization)
  finally have frame: "filter (\<lambda>e. ?other (lower (fst e))) ?h2 =
      filter (\<lambda>e. ?other (lower (fst e))) (headers r)" .
  have exact: "distinct (map (\<lambda>e. lower (fst e)) ?h2) \<and>
      filter (\<lambda>e. lower (fst e) = ?au) ?h2 = [(?au, key a)] \<and>
      filter (\<lambda>e. lower (fst e) = ?pt) ?h2 = [(?pt, secret a)]"
    if d: "distinct (map (\<lambda>e. lower (fst e)) (headers r))"
  proof -
    from d have d1: "distinct (map (\<lambda>e. lower (fst e)) ?h1)"
      by (rule setitem_distinct)
    then have d2: "distinct (map (\<lambda>e. lower (fst e)) ?h2)"
      by (rule setitem_distinct)
    have "filter (\<lambda>e. lower (fst e) = ?au) ?h2 = filter (\<lambda>e. lower (fst e) = ?au) ?h1"
      using setitem_keeps_entries [of "\<lambda>n. n = ?au" ?pt "secret a" ?h1]
      by (simp add: lower_partner_token)
    also have "\<dots> = [(?au, key a)]"
      using setitem_single_entry [OF d, of ?au "key a"] by (simp add: lower_authorization)
    finally have one_au: "filter (\<lambda>e. lower (fst e) = ?au) ?h2 = [(?au, key a)]" .
    have one_pt: "filter (\<lambda>e. lower (fst e) = ?pt) ?h2 = [(?pt, secret a)]"
      using setitem_single_entry [OF d1, of ?pt "secret a"] by (simp add: lower_partner_token)
    from d2 one_au one_pt show ?thesis by simp
  qed
  from lookup au pt frame exact show ?thesis
    by (simp add: CarmdAuth_call_eq)
qed

theorem CarmdAuth_call_sets_two_headers_witness:
  "CarmdAuth_call \<lparr>key = PStr ''Basic abc='', secret = PStr ''XXXX-XXXX''\<rparr>
     \<lparr>verb = ''GET'', url = ''http://api2.carmd.com/v2.0/decode'',
        headers = [(''Accept'', PStr ''*/*''), (''Authorization'', PStr ''old'')], body = ''''\<rparr> =
     \<lparr>verb = ''GET'', url = ''http://api2.carmd.com/v2.0/decode'',
        headers = [(''Accept'', PStr ''*/*''), (''authorization'', PStr ''Basic abc=''),
                   (''partner-token'', PStr ''XXXX-XXXX'')], body = ''''\<rparr> \<and>
   CaseInsensitiveDict_getitem (headers
     (CarmdAuth_call \<lparr>key = PStr ''Basic abc='', secret = PStr ''XXXX-XXXX''\<rparr>
       \<lparr>verb = ''GET'', url = ''http://api2.carmd.com/v2.0/decode'',
          headers = [(''Accept'', PStr ''*/*''), (''Authorization'', PStr ''old'')], body = ''''\<rparr>))
     ''Authorization'' = Some (PStr ''Basic abc='') \<and>
   filter (\<lambda>e. lower (fst e) = ''authorization'') (headers
     (CarmdAuth_call \<lparr>key = PStr ''Basic abc='', secret = PStr ''XXXX-XXXX''\<rparr>
       \<lparr>verb = ''GET'', url = ''http://api2.carmd.com/v2.0/decode'',
          headers = [(''Accept'', PStr ''*/*''), (''Authorization'', PStr ''old'')], body = ''''\<rparr>)) =
     [(''authorization'', PStr ''Basic abc='')]"
proof -
  let ?a = "\<lparr>key = PStr ''Basic abc='', secret = PStr ''XXXX-XXXX''\<rparr>"
  let ?r = "\<lparr>verb = ''GET'', url = ''http://api2.carmd.com/v2.0/decode'',
        headers = [(''Accept'', PStr ''*/*''), (''Authorization'', PStr ''old'')], body = ''''\<rparr>"
  have low: "lower ''Authorization'' = ''authorization''" "lower ''Accept'' = ''accept''"
    by (simp_all add: lower_def lower_char_def)
  have d: "distinct (map (\<lambda>e. lower (fst e)) (headers ?r))"
    by (simp add: low)
  have run: "CarmdAuth_call ?a ?r =
     \<lparr>verb = ''GET'', url = ''http://api2.carmd.com/v2.0/decode'',
        headers = [(''Accept'', PStr ''*/*''), (''authorization'', PStr ''Basic abc=''),
                   (''partner-token'', PStr ''XXXX-XXXX'')], body = ''''\<rparr>"
    by (simp add: CarmdAuth_call_eq low lower_authorization lower_partner_token)
  from CarmdAuth_call_sets_two_headers [of ?a ?r "''Authorization''"] d run low
  show ?thesis
    by simp
qed

text \<open>
  Claim C6. Applying the auth object twice gives the same request as applying it once,
  and the two header fields still hold the key and the secret.
\<close>

theorem CarmdAuth_call_idempotent:
  "CarmdAuth_call a (CarmdAuth_call a r) = CarmdAuth_call a r \<and>
   map_of (headers (CarmdAuth_call a (CarmdAuth_call a r))) ''authorization'' = Some (key a) \<and>
   map_of (headers (CarmdAuth_call a (CarmdAuth_call a r))) ''partner-token'' = Some (secret a) \<and>
   CaseInsensitiveDict_getitem (headers (CarmdAuth_call a (CarmdAuth_call a r))) ''authorization'' =
     Some (key a) \<and>
   CaseInsensitiveDict_getitem (headers (CarmdAuth_call a (CarmdAuth_call a r))) ''partner-token'' =
     Some (secret a)"
proof -
  let ?au = "''authorization''" and ?pt = "''partner-token''"
  let ?h = "CaseInsensitiveDict_setitem ?pt (secret a)
              (CaseInsensitiveDict_setitem ?au (key a) (headers r))"
  have ne: "lower ?pt \<noteq> lower ?au"
    by (simp add: lower_authorization lower_partner_token)
  have "find (\<lambda>e. lower (fst e) = lower ?au) ?h = Some (?au, key a)"
    using ne by (simp add: setitem_find_other setitem_find_same)
  then have again_au: "CaseInsensitiveDict_setitem ?au (key a) ?h = ?h"
    by (rule setitem_present)
  have "find (\<lambda>e. lower (fst e) = lower ?pt) ?h = Some (?pt, secret a)"
    by (rule setitem_find_same)
  then have again_pt: "CaseInsensitiveDict_setitem ?pt (secret a) ?h = ?h"
    by (rule setitem_present)
  have idem: "CarmdAuth_call a (CarmdAuth_call a r) = CarmdAuth_call a r"
    by (simp add: CarmdAuth_call_eq again_au again_pt)
  have au: "map_of ?h ?au = Some (key a)"
    using ne by (simp add: setitem_map_of_other setitem_map_of_same)
  have pt: "map_of ?h ?pt = Some (secret a)"
    by (rule setitem_map_of_same)
  have ci: "CaseInsensitiveDict_getitem ?h ?au = Some (key a)"
    "CaseInsensitiveDict_getitem ?h ?pt = Some (secret a)"
    by (simp_all add: setitem_getitem lower_authorization lower_partner_token)
  show ?thesis
    using au pt ci unfolding idem by (simp add: CarmdAuth_call_eq)
qed

subsection \<open>The generic operation\<close>




subsection \<open>The builtin str on integers\<close>

text \<open>
  \<^const>\<open>str_nat\<close> writes a number in decimal: the result is not empty, has only digits,
  starts with a zero only for zero, reads back to the number, and has at most \<open>k\<close>
  digits exactly when the number is below \<open>10 ^ k\<close>.
\<close>

lemma digit_range: "(d::nat) < 10 \<Longrightarrow> d \<in> {0, 1, 2, 3, 4, 5, 6, 7, 8, 9}"
  by auto

lemma digit_value: "d < 10 \<Longrightarrow> of_char (digit d) = 48 + d"
  using digit_range [of d] by (auto simp: digit_def)

lemma digit_is_digit: "d < 10 \<Longrightarrow> digit d \<in> set ''0123456789''"
  using digit_range [of d] by (auto simp: digit_def)

lemma digit_zero: "d < 10 \<Longrightarrow> digit d = CHR ''0'' \<longleftrightarrow> d = 0"
  using digit_range [of d] by (auto simp: digit_def)

lemma str_nat_small: "n < 10 \<Longrightarrow> str_nat n = [digit n]"
  by (subst str_nat.simps) simp

lemma str_nat_large: "\<not> n < 10 \<Longrightarrow> str_nat n = str_nat (n div 10) @ [digit (n mod 10)]"
  by (subst str_nat.simps) simp

lemma str_nat_nonempty: "str_nat n \<noteq> []"
  by (cases "n < 10") (simp_all add: str_nat_small str_nat_large)

lemma str_nat_digits: "set (str_nat n) \<subseteq> set ''0123456789''"
proof (induction n rule: str_nat.induct)
  case (1 n)
  show ?case
  proof (cases "n < 10")
    case True
    then show ?thesis
      using digit_is_digit [of n] by (simp add: str_nat_small)
  next
    case False
    have "n mod 10 < 10" by simp
    then have "digit (n mod 10) \<in> set ''0123456789''"
      by (rule digit_is_digit)
    with False "1" show ?thesis
      by (simp add: str_nat_large)
  qed
qed

lemma str_nat_decimal:
  "foldl (\<lambda>a c. 10 * a + (of_char c - 48)) 0 (str_nat n) = n"
proof (induction n rule: str_nat.induct)
  case (1 n)
  show ?case
  proof (cases "n < 10")
    case True
    then show ?thesis
      by (simp add: str_nat_small digit_value)
  next
    case False
    have "n mod 10 < 10" by simp
    then have d: "of_char (digit (n mod 10)) = 48 + n mod 10"
      by (rule digit_value)
    from False "1"
    have ih: "foldl (\<lambda>a c. 10 * a + (of_char c - 48)) 0 (str_nat (n div 10)) = n div 10"
      by simp
    show ?thesis
      unfolding str_nat_large [OF False] by (simp add: ih d)
  qed
qed

lemma str_nat_hd: "hd (str_nat n) = CHR ''0'' \<longleftrightarrow> n = 0"
proof (induction n rule: str_nat.induct)
  case (1 n)
  show ?case
  proof (cases "n < 10")
    case True
    then show ?thesis
      by (simp add: str_nat_small digit_zero)
  next
    case False
    then have "n div 10 \<noteq> 0" by simp
    with False "1" show ?thesis
      by (simp add: str_nat_large str_nat_nonempty)
  qed
qed

lemma div10_less: "(n::nat) div 10 < m \<longleftrightarrow> n < 10 * m"
  by auto

lemma str_nat_length: "0 < k \<Longrightarrow> length (str_nat n) \<le> k \<longleftrightarrow> n < 10 ^ k"
proof (induction n arbitrary: k rule: str_nat.induct)
  case (1 n)
  from "1.prems" obtain j where j: "k = Suc j"
    by (cases k) auto
  show ?case
  proof (cases "n < 10")
    case True
    have "(1::nat) \<le> 10 ^ j" by simp
    then have "(10::nat) \<le> 10 * 10 ^ j" by linarith
    with True have "n < 10 * 10 ^ j" by linarith
    then show ?thesis
      using j by (simp add: str_nat_small [OF True])
  next
    case False
    note large = str_nat_large [OF False]
    show ?thesis
    proof (cases "j = 0")
      case True
      have "length (str_nat (n div 10)) \<noteq> 0"
        using str_nat_nonempty [of "n div 10"] by simp
      with True False j show ?thesis
        by (simp add: large)
    next
      case j0: False
      then have "0 < j" by simp
      from "1.IH" [OF False this]
      have "length (str_nat (n div 10)) \<le> j \<longleftrightarrow> n div 10 < 10 ^ j" .
      also have "\<dots> \<longleftrightarrow> n < 10 * 10 ^ j"
        by (rule div10_less)
      finally show ?thesis
        using j by (simp add: large)
    qed
  qed
qed

lemma str_nat_2013: "str_nat 2013 = ''2013''"
  by (simp add: str_nat.simps [of 2013] str_nat.simps [of 201] str_nat.simps [of 20] str_nat.simps [of 2] digit_def)

lemma str_nat_4300: "str_nat 4300 = ''4300''"
  by (simp add: str_nat.simps [of 4300] str_nat.simps [of 430] str_nat.simps [of 43] str_nat.simps [of 4] digit_def)

lemma str_int_within:
  assumes "limit = 0 \<or> \<bar>i\<bar> < 10 ^ limit"
  shows "str_int limit i = Inr ((if i < 0 then ''-'' else []) @ str_nat (nat \<bar>i\<bar>))"
proof (cases "limit = 0")
  case True
  then show ?thesis
    by (simp add: str_int_def Let_def)
next
  case False
  with assms have "\<bar>i\<bar> < 10 ^ limit" by simp
  then have "nat \<bar>i\<bar> < 10 ^ limit"
    by (simp add: nat_less_iff)
  with False have "length (str_nat (nat \<bar>i\<bar>)) \<le> limit"
    by (simp add: str_nat_length)
  then show ?thesis
    by (simp add: str_int_def Let_def)
qed

lemma str_int_over:
  assumes "0 < limit" and "10 ^ limit \<le> \<bar>i\<bar>"
  shows "str_int limit i =
     Inl (ValueError (''Exceeds the limit ('' @ str_nat limit @
             '' digits) for integer string conversion; '' @
             ''use sys.set_int_max_str_digits() to increase the limit''))"
proof -
  from assms(2) have "\<not> nat \<bar>i\<bar> < 10 ^ limit"
    by (simp add: nat_less_iff)
  with str_nat_length [OF assms(1), of "nat \<bar>i\<bar>"]
  have "limit < length (str_nat (nat \<bar>i\<bar>))"
    by simp
  with assms(1) show ?thesis
    by (simp add: str_int_def Let_def)
qed

lemma year_2013_within:
  assumes "limit = 0 \<or> 640 \<le> limit"
  shows "limit = 0 \<or> \<bar>2013::int\<bar> < 10 ^ limit"
proof (cases "limit = 0")
  case True
  then show ?thesis by simp
next
  case False
  with assms have "4 \<le> limit" by simp
  then have "(10::int) ^ 4 \<le> 10 ^ limit"
    by (intro power_increasing) simp_all
  moreover have "\<bar>2013::int\<bar> < 10 ^ 4" by simp
  ultimately show ?thesis by linarith
qed

subsection \<open>Models by year and make\<close>

text \<open>
  Claim C8, as stated, says that \<^const>\<open>get_models\<close> passes a query to \<^const>\<open>get\<close> for
  every integer year. \<^verbatim>\<open>str(year)\<close> is evaluated first, and the interpreter refuses to
  convert an integer with more digits than its limit: with the default limit of 4300
  digits and the year \<open>10 ^ 4300\<close>, which has 4301 digits, \<^const>\<open>get_models\<close> raises
  \<^verbatim>\<open>ValueError\<close>, \<^const>\<open>get\<close> is not invoked and nothing is issued.
\<close>

theorem get_models_huge_year_counterexample:
  "get_models (\<lambda>h c. c)
       \<lparr>self_key = PStr ''k'', self_secret = PStr ''s'',
          self_auth = \<lparr>key = PStr ''k'', secret = PStr ''s''\<rparr>\<rparr>
       (PInt (10 ^ 4300)) (PStr ''Toyota'') (start []) =
     (Inl (ValueError (''Exceeds the limit (4300 digits) for integer string conversion; '' @
             ''use sys.set_int_max_str_digits() to increase the limit'')),
      \<lparr>self_key = PStr ''k'', self_secret = PStr ''s'',
          self_auth = \<lparr>key = PStr ''k'', secret = PStr ''s''\<rparr>\<rparr>, start [])"
proof -
  have lim: "int_max_str_digits (start []) = 4300"
    by (simp add: start_def)
  have "(0::int) \<le> 10 ^ 4300"
    by (rule zero_le_power) simp
  then have "(10::int) ^ 4300 \<le> \<bar>10 ^ 4300\<bar>"
    by (simp only: abs_of_nonneg order_refl)
  then have "str_int 4300 (10 ^ 4300) =
     Inl (ValueError (''Exceeds the limit ('' @ str_nat 4300 @
             '' digits) for integer string conversion; '' @
             ''use sys.set_int_max_str_digits() to increase the limit''))"
    by (rule str_int_over [rotated]) simp
  then have "str (int_max_str_digits (start [])) (PInt (10 ^ 4300)) =
     Inl (ValueError (''Exceeds the limit (4300 digits) for integer string conversion; '' @
             ''use sys.set_int_max_str_digits() to increase the limit''))"
    by (simp only: lim str.simps str_nat_4300 append.simps)
  then show ?thesis
    by (simp only: get_models_def sum.case)
qed

text \<open>
  Claim C8, amended. For every make, and every year that is a string or an integer
  within the interpreter's limit on integer string conversion (no limit, or fewer
  digits than the limit allows), \<^const>\<open>get_models\<close> passes to \<^const>\<open>get\<close> the query
  \<^verbatim>\<open>{'year': str(year), 'make': make}\<close>, and that query is what the issued call carries.
  \<^verbatim>\<open>str\<close> leaves a string as it is and writes an integer in decimal, with a minus sign
  when it is negative; the decimal digits of a number are not empty, are digits, start
  with a zero only for zero and read back to the number. An integer year beyond the
  limit raises \<^verbatim>\<open>ValueError\<close> and leaves the process as it was. On an interpreter whose
  limit is off or at least 640 (the values it accepts), \<^verbatim>\<open>get_models(2013, "Toyota")\<close> and
  \<^verbatim>\<open>get_models("2013", "Toyota")\<close> both send \<^verbatim>\<open>year='2013'\<close> and \<^verbatim>\<open>make='Toyota'\<close>.
\<close>

theorem get_models_query:
  "get_models http self (PStr s) make' p =
     get http self ''decode'' (Some [(''year'', PStr s), (''make'', make')]) [] p \<and>
   (int_max_str_digits p = 0 \<or> \<bar>i\<bar> < 10 ^ int_max_str_digits p \<longrightarrow>
      get_models http self (PInt i) make' p =
        get http self ''decode''
          (Some [(''year'', PStr ((if i < 0 then ''-'' else []) @ str_nat (nat \<bar>i\<bar>))),
                 (''make'', make')]) [] p) \<and>
   (0 < int_max_str_digits p \<and> 10 ^ int_max_str_digits p \<le> \<bar>i\<bar> \<longrightarrow>
      (\<exists>m. get_models http self (PInt i) make' p = (Inl (ValueError m), self, p))) \<and>
   str_nat n \<noteq> [] \<and>
   set (str_nat n) \<subseteq> set ''0123456789'' \<and>
   foldl (\<lambda>a c. 10 * a + (of_char c - 48)) 0 (str_nat n) = n \<and>
   (hd (str_nat n) = CHR ''0'' \<longleftrightarrow> n = 0) \<and>
   (int_max_str_digits p = 0 \<or> 640 \<le> int_max_str_digits p \<longrightarrow>
      get_models http self (PInt 2013) (PStr ''Toyota'') p =
        get http self ''decode'' (Some [(''year'', PStr ''2013''), (''make'', PStr ''Toyota'')]) [] p \<and>
      get_models http self (PStr ''2013'') (PStr ''Toyota'') p =
        get http self ''decode'' (Some [(''year'', PStr ''2013''), (''make'', PStr ''Toyota'')]) [] p) \<and>
   sent (snd (snd (get http self ''decode'' (Some [(''year'', PStr s), (''make'', make')]) [] p))) =
     sent p @ [\<lparr>call_verb = ''GET'', call_url = CMD_BASE_URL (globals p) @ ''decode'',
                call_params = Some [(''year'', PStr s), (''make'', make')],
                call_kwargs = [(''auth'', AuthObj (self_auth self))]\<rparr>]"
proof -
  have a: "get_models http self (PStr s) make' p =
     get http self ''decode'' (Some [(''year'', PStr s), (''make'', make')]) [] p" for s make'
    by (simp add: get_models_def)
  have b: "get_models http self (PInt i) make' p =
        get http self ''decode''
          (Some [(''year'', PStr ((if i < 0 then ''-'' else []) @ str_nat (nat \<bar>i\<bar>))),
                 (''make'', make')]) [] p"
    if "int_max_str_digits p = 0 \<or> \<bar>i\<bar> < 10 ^ int_max_str_digits p" for i make'
    using str_int_within [OF that] by (simp add: get_models_def)
  have c: "\<exists>m. get_models http self (PInt i) make' p = (Inl (ValueError m), self, p)"
    if "0 < int_max_str_digits p \<and> 10 ^ int_max_str_digits p \<le> \<bar>i\<bar>"
    using that str_int_over [of "int_max_str_digits p" i] by (simp add: get_models_def)
  have d: "get_models http self (PInt 2013) (PStr ''Toyota'') p =
        get http self ''decode'' (Some [(''year'', PStr ''2013''), (''make'', PStr ''Toyota'')]) [] p"
    if "int_max_str_digits p = 0 \<or> 640 \<le> int_max_str_digits p"
    using b [OF year_2013_within [OF that], of "PStr ''Toyota''"] by (simp add: str_nat_2013)
  have e: "sent (snd (snd (get http self ''decode''
        (Some [(''year'', PStr s), (''make'', make')]) [] p))) =
     sent p @ [\<lparr>call_verb = ''GET'', call_url = CMD_BASE_URL (globals p) @ ''decode'',
                call_params = Some [(''year'', PStr s), (''make'', make')],
                call_kwargs = [(''auth'', AuthObj (self_auth self))]\<rparr>]"
    by (simp add: get_no_kwargs)
  from a b c d e str_nat_nonempty [of n] str_nat_digits [of n] str_nat_decimal [of n]
    str_nat_hd [of n]
  show ?thesis
    by blast
qed

theorem get_models_query_witness:
  "get_models (\<lambda>h c. c)
       \<lparr>self_key = PStr ''k'', self_secret = PStr ''s'',
          self_auth = \<lparr>key = PStr ''k'', secret = PStr ''s''\<rparr>\<rparr>
       (PInt 2013) (PStr ''Toyota'') (start []) =
     get (\<lambda>h c. c)
       \<lparr>self_key = PStr ''k'', self_secret = PStr ''s'',
          self_auth = \<lparr>key = PStr ''k'', secret = PStr ''s''\<rparr>\<rparr>
       ''decode'' (Some [(''year'', PStr ''2013''), (''make'', PStr ''Toyota'')]) [] (start []) \<and>
   get_models (\<lambda>h c. c)
       \<lparr>self_key = PStr ''k'', self_secret = PStr ''s'',
          self_auth = \<lparr>key = PStr ''k'', secret = PStr ''s''\<rparr>\<rparr>
       (PStr ''2013'') (PStr ''Toyota'') (start []) =
     get (\<lambda>h c. c)
       \<lparr>self_key = PStr ''k'', self_secret = PStr ''s'',
          self_auth = \<lparr>key = PStr ''k'', secret = PStr ''s''\<rparr>\<rparr>
       ''decode'' (Some [(''year'', PStr ''2013''), (''make'', PStr ''Toyota'')]) [] (start []) \<and>
   sent (snd (snd (get (\<lambda>h c. c)
       \<lparr>self_key = PStr ''k'', self_secret = PStr ''s'',
          self_auth = \<lparr>key = PStr ''k'', secret = PStr ''s''\<rparr>\<rparr>
       ''decode'' (Some [(''year'', PStr ''2013''), (''make'', PStr ''Toyota'')]) [] (start [])))) =
     [\<lparr>call_verb = ''GET'', call_url = ''http://api2.carmd.com/v2.0/decode'',
        call_params = Some [(''year'', PStr ''2013''), (''make'', PStr ''Toyota'')],
        call_kwargs = [(''auth'', AuthObj \<lparr>key = PStr ''k'', secret = PStr ''s''\<rparr>)]\<rparr>]"
proof -
  have lim: "int_max_str_digits (start []) = 0 \<or> 640 \<le> int_max_str_digits (start [])"
    by (simp add: start_def)
  have base: "sent (start []) = []" "CMD_BASE_URL (globals (start [])) = ''http://api2.carmd.com/v2.0/''"
    by (simp_all add: start_def import_api_def)
  from get_models_query [where p = "start []" and s = "''2013''" and make' = "PStr ''Toyota''"
      and http = "\<lambda>h c. c"
      and self = "\<lparr>self_key = PStr ''k'', self_secret = PStr ''s'',
          self_auth = \<lparr>key = PStr ''k'', secret = PStr ''s''\<rparr>\<rparr>"] lim base
  show ?thesis
    by simp
qed

subsection \<open>The credentials over the lifetime of a client\<close>

lemma invoke_effect:
  "invoke http self x p = (outcome, self1, p1) \<Longrightarrow>
     self1 = self \<and> globals p1 = globals p \<and> environ p1 = environ p \<and>
     (sent p1 = sent p \<or>
      (\<exists>c. sent p1 = sent p @ [c] \<and>
           map_of (call_kwargs c) ''auth'' = Some (AuthObj (self_auth self))))"
  by (cases x)
    (auto simp: get_eq get_no_kwargs Let_def update_conv' get_decode_def get_safety_recall_def
      get_predicted_repair_def get_warranty_def get_maintenance_def get_years_def
      get_makes_def get_models_def simp del: set_map split: if_splits sum.splits)

lemma run_effect:
  "run http self xs p = (self', p') \<Longrightarrow>
     self' = self \<and> globals p' = globals p \<and> environ p' = environ p \<and>
     (\<exists>new. sent p' = sent p @ new \<and>
        (\<forall>c\<in>set new. map_of (call_kwargs c) ''auth'' = Some (AuthObj (self_auth self))))"
proof (induction xs arbitrary: p)
  case Nil
  then show ?case by simp
next
  case (Cons x xs)
  obtain outcome self1 p1 where step: "invoke http self x p = (outcome, self1, p1)"
    by (cases "invoke http self x p") auto
  from invoke_effect [OF step] have s1: "self1 = self" and g1: "globals p1 = globals p"
    and e1: "environ p1 = environ p"
    and sent1: "sent p1 = sent p \<or> (\<exists>c. sent p1 = sent p @ [c] \<and>
           map_of (call_kwargs c) ''auth'' = Some (AuthObj (self_auth self)))"
    by simp_all
  from Cons.prems step s1 have rest: "run http self xs p1 = (self', p')"
    by simp
  from Cons.IH [OF rest] obtain new where
    r: "self' = self" "globals p' = globals p1" "environ p' = environ p1"
       "sent p' = sent p1 @ new"
       "\<forall>c\<in>set new. map_of (call_kwargs c) ''auth'' = Some (AuthObj (self_auth self))"
    by blast
  from sent1 show ?case
  proof
    assume "sent p1 = sent p"
    with r g1 e1 show ?thesis by auto
  next
    assume "\<exists>c. sent p1 = sent p @ [c] \<and>
           map_of (call_kwargs c) ''auth'' = Some (AuthObj (self_auth self))"
    then obtain c where c: "sent p1 = sent p @ [c]"
      "map_of (call_kwargs c) ''auth'' = Some (AuthObj (self_auth self))"
      by blast
    have "sent p' = sent p @ (c # new)"
      using r(4) c(1) by simp
    moreover have
      "\<forall>d\<in>set (c # new). map_of (call_kwargs d) ''auth'' = Some (AuthObj (self_auth self))"
      using r(5) c(2) by simp
    ultimately show ?thesis
      using r(1,2,3) g1 e1 by (intro conjI exI [of _ "c # new"]) simp_all
  qed
qed

text \<open>
  Claim C9. No operation of a successfully constructed client, \<^const>\<open>get\<close> or a
  per-endpoint method, changes its key, secret or auth object: after any sequence of
  operations the client is the one that was constructed. Every call issued in that
  sequence carries the auth object of the client, so every request the auth object is
  applied to leaves with the same two credential headers, the key and the secret of the
  client.
\<close>

theorem credentials_immutable:
  assumes "fst (CarmdApi_init key0 secret0 p0) = Inr self"
    and "run http self xs p = (self', p')"
  shows "self' = self \<and>
    self_auth self = \<lparr>key = self_key self, secret = self_secret self\<rparr> \<and>
    take (length (sent p)) (sent p') = sent p \<and>
    (\<forall>c\<in>set (drop (length (sent p)) (sent p')).
       map_of (call_kwargs c) ''auth'' = Some (AuthObj (self_auth self)) \<and>
       (\<forall>r. map_of (headers (apply_auth c r)) ''authorization'' = Some (self_key self) \<and>
            map_of (headers (apply_auth c r)) ''partner-token'' = Some (self_secret self)))"
proof -
  from assms(1) have auth: "self_auth self = \<lparr>key = self_key self, secret = self_secret self\<rparr>"
    by (auto simp: CarmdApi_init_eq Let_def split: if_splits)
  from run_effect [OF assms(2)] obtain new where
    new: "self' = self" "sent p' = sent p @ new"
      "\<forall>c\<in>set new. map_of (call_kwargs c) ''auth'' = Some (AuthObj (self_auth self))"
    by blast
  have hdr: "map_of (headers (apply_auth c r)) ''authorization'' = Some (self_key self) \<and>
            map_of (headers (apply_auth c r)) ''partner-token'' = Some (self_secret self)"
    if "map_of (call_kwargs c) ''auth'' = Some (AuthObj (self_auth self))" for c r
    using that auth
    by (simp add: apply_auth_def CarmdAuth_call_eq setitem_map_of_same setitem_map_of_other
        lower_authorization lower_partner_token)
  from new auth hdr show ?thesis
    by simp
qed

theorem credentials_immutable_witness:
  "fst (CarmdApi_init (PStr ''k'') PNone (start [(''CARMD_SECRET'', ''s'')])) =
     Inr \<lparr>self_key = PStr ''k'', self_secret = PStr ''s'',
          self_auth = \<lparr>key = PStr ''k'', secret = PStr ''s''\<rparr>\<rparr> \<and>
   fst (run (\<lambda>h c. length h)
          \<lparr>self_key = PStr ''k'', self_secret = PStr ''s'',
             self_auth = \<lparr>key = PStr ''k'', secret = PStr ''s''\<rparr>\<rparr>
          [Get_decode (PStr ''5XYKTDA26DG338929''), Get_predicted_repair PNone PNone PNone,
           Get ''decode'' None [(''auth'', Val (PStr ''mine''))]]
          (start [(''CARMD_SECRET'', ''s'')])) =
     \<lparr>self_key = PStr ''k'', self_secret = PStr ''s'',
        self_auth = \<lparr>key = PStr ''k'', secret = PStr ''s''\<rparr>\<rparr> \<and>
   length (sent (snd (run (\<lambda>h c. length h)
          \<lparr>self_key = PStr ''k'', self_secret = PStr ''s'',
             self_auth = \<lparr>key = PStr ''k'', secret = PStr ''s''\<rparr>\<rparr>
          [Get_decode (PStr ''5XYKTDA26DG338929''), Get_predicted_repair PNone PNone PNone,
           Get ''decode'' None [(''auth'', Val (PStr ''mine''))]]
          (start [(''CARMD_SECRET'', ''s'')])))) = 2 \<and>
   list_all (\<lambda>c.
       map_of (headers (apply_auth c
         \<lparr>verb = ''GET'', url = ''http://api2.carmd.com/v2.0/decode'',
            headers = [(''authorization'', PStr ''old'')], body = ''''\<rparr>)) ''authorization'' =
         Some (PStr ''k'') \<and>
       map_of (headers (apply_auth c
         \<lparr>verb = ''GET'', url = ''http://api2.carmd.com/v2.0/decode'',
            headers = [(''authorization'', PStr ''old'')], body = ''''\<rparr>)) ''partner-token'' =
         Some (PStr ''s''))
     (sent (snd (run (\<lambda>h c. length h)
          \<lparr>self_key = PStr ''k'', self_secret = PStr ''s'',
             self_auth = \<lparr>key = PStr ''k'', secret = PStr ''s''\<rparr>\<rparr>
          [Get_decode (PStr ''5XYKTDA26DG338929''), Get_predicted_repair PNone PNone PNone,
           Get ''decode'' None [(''auth'', Val (PStr ''mine''))]]
          (start [(''CARMD_SECRET'', ''s'')]))))"
proof -
  let ?C = "\<lparr>self_key = PStr ''k'', self_secret = PStr ''s'',
             self_auth = \<lparr>key = PStr ''k'', secret = PStr ''s''\<rparr>\<rparr>"
  let ?p = "start [(''CARMD_SECRET'', ''s'')]"
  let ?run = "run (\<lambda>h c. length h) ?C
          [Get_decode (PStr ''5XYKTDA26DG338929''), Get_predicted_repair PNone PNone PNone,
           Get ''decode'' None [(''auth'', Val (PStr ''mine''))]] ?p"
  have a: "fst (CarmdApi_init (PStr ''k'') PNone ?p) = Inr ?C"
    by (simp add: CarmdApi_init_eq start_def import_api_def environ_get_def Let_def)
  have b: "?run = (fst ?run, snd ?run)"
    by simp
  have n: "length (sent (snd ?run)) = 2"
    by (simp add: get_decode_def get_predicted_repair_def get_eq Let_def start_def)
  have e: "sent ?p = []"
    by (simp add: start_def)
  from credentials_immutable [OF a b] e n show ?thesis
    using a by (simp add: list_all_iff)
qed

subsection \<open>Defaults captured at import\<close>

text \<open>
  Claim C10. The fallback values are read from the environment once, when the module is
  imported. Assignments to and deletions from the environment after the import leave
  the module globals as they are, and a construction in a process whose environment has
  become anything else resolves an omitted key or secret to the value that \<^verbatim>\<open>CARMD_KEY\<close>
  or \<^verbatim>\<open>CARMD_SECRET\<close> had at import: its result is the one it would have had right after
  the import.
\<close>

theorem defaults_fixed_at_import:
  "globals (putenv name v p) = globals p \<and>
   globals (unsetenv name p) = globals p \<and>
   CarmdApi_init key0 secret0 ((start env0)\<lparr>environ := env1\<rparr>) =
     (let key1 = (if key0 = PNone then environ_get env0 ''CARMD_KEY'' else key0);
          secret1 = (if secret0 = PNone then environ_get env0 ''CARMD_SECRET'' else secret0)
      in (if truthy key1 \<and> truthy secret1
          then Inr \<lparr>self_key = key1, self_secret = secret1,
                    self_auth = \<lparr>key = key1, secret = secret1\<rparr>\<rparr>
          else Inl (KeyError init_message),
          (start env0)\<lparr>environ := env1\<rparr>)) \<and>
   fst (CarmdApi_init key0 secret0 ((start env0)\<lparr>environ := env1\<rparr>)) =
     fst (CarmdApi_init key0 secret0 (start env0))"
  by (simp add: putenv_def unsetenv_def CarmdApi_init_eq start_def import_api_def Let_def)

theorem defaults_fixed_at_import_witness:
  "fst (CarmdApi_init PNone PNone
          (putenv ''CARMD_KEY'' ''k1'' (unsetenv ''CARMD_SECRET''
             (start [(''CARMD_KEY'', ''k0''), (''CARMD_SECRET'', ''s0'')])))) =
     Inr \<lparr>self_key = PStr ''k0'', self_secret = PStr ''s0'',
          self_auth = \<lparr>key = PStr ''k0'', secret = PStr ''s0''\<rparr>\<rparr> \<and>
   environ (putenv ''CARMD_KEY'' ''k1'' (unsetenv ''CARMD_SECRET''
             (start [(''CARMD_KEY'', ''k0''), (''CARMD_SECRET'', ''s0'')]))) =
     [(''CARMD_KEY'', ''k1'')]"
proof -
  have "putenv ''CARMD_KEY'' ''k1'' (unsetenv ''CARMD_SECRET''
             (start [(''CARMD_KEY'', ''k0''), (''CARMD_SECRET'', ''s0'')])) =
        (start [(''CARMD_KEY'', ''k0''), (''CARMD_SECRET'', ''s0'')])
          \<lparr>environ := [(''CARMD_KEY'', ''k1'')]\<rparr>"
    by (simp add: putenv_def unsetenv_def start_def)
  with defaults_fixed_at_import [where ?key0.0 = PNone and ?secret0.0 = PNone
      and ?env0.0 = "[(''CARMD_KEY'', ''k0''), (''CARMD_SECRET'', ''s0'')]"
      and ?env1.0 = "[(''CARMD_KEY'', ''k1'')]"]
  show ?thesis
    by (simp add: environ_get_def Let_def)
qed

end
